theory Spec2Isabelle
  imports Complex_Main "HOL-Library.Word" "HOL-Library.AList" "HOL-Library.Sublist"
begin

section \<open>JavaScript values\<close>

text \<open>
  The storage layer handles untyped values (\<open>any\<close>): a value is a primitive, a
  \<open>Uint8Array\<close>, an array or a plain object. An object is the list of its own
  enumerable properties in insertion order. A numeric value is the rational it denotes
  (wire values are finite; \<open>-0\<close> and \<open>0\<close> agree on everything this code observes).
\<close>

datatype jsval =
    JUndefined
  | JNull
  | JBool bool
  | JNum rat
  | JStr string
  | JBytes "8 word list"
  | JArr "jsval list"
  | JObj "(string \<times> jsval) list"

type_synonym obj = "(string \<times> jsval) list"

text \<open>\<open>o.k\<close> on an object: the value of the own property, \<open>undefined\<close> when there is none.\<close>

definition getField :: "obj \<Rightarrow> string \<Rightarrow> jsval" where
  "getField ob k = (case map_of ob k of None \<Rightarrow> JUndefined | Some v \<Rightarrow> v)"

text \<open>
  \<open>v.k\<close> on a value that is not \<open>null\<close> or \<open>undefined\<close>, for the keys this code reads from
  an error value (\<open>message\<close>, \<open>stack\<close>, \<open>code\<close>): primitives, arrays and typed arrays carry
  none of them.
\<close>

definition getProp :: "jsval \<Rightarrow> string \<Rightarrow> jsval" where
  "getProp v k = (case v of JObj ob \<Rightarrow> getField ob k | _ \<Rightarrow> JUndefined)"

text \<open>The \<open>typeof\<close> operator.\<close>

fun typeof :: "jsval \<Rightarrow> string" where
  "typeof JUndefined = ''undefined''"
| "typeof JNull = ''object''"
| "typeof (JBool _) = ''boolean''"
| "typeof (JNum _) = ''number''"
| "typeof (JStr _) = ''string''"
| "typeof (JBytes _) = ''object''"
| "typeof (JArr _) = ''object''"
| "typeof (JObj _) = ''object''"

text \<open>Truthiness, as tested by \<open>if (v)\<close> and \<open>!v\<close>.\<close>

fun truthy :: "jsval \<Rightarrow> bool" where
  "truthy JUndefined = False"
| "truthy JNull = False"
| "truthy (JBool b) = b"
| "truthy (JNum n) = (n \<noteq> 0)"
| "truthy (JStr s) = (s \<noteq> [])"
| "truthy (JBytes _) = True"
| "truthy (JArr _) = True"
| "truthy (JObj _) = True"

text \<open>\<open>a ?? b\<close>: the right operand is taken when the left one is \<open>null\<close> or \<open>undefined\<close>.\<close>

fun nullish :: "jsval \<Rightarrow> bool" where
  "nullish JUndefined = True"
| "nullish JNull = True"
| "nullish _ = False"

definition coalesce :: "jsval \<Rightarrow> jsval \<Rightarrow> jsval" where
  "coalesce a b = (if nullish a then b else a)"

datatype resolveData = RD_none | RD_all

section \<open>The shared projection filters (filters.ts)\<close>

text \<open>
  \<open>{...run, input: undefined, output: undefined}\<close>: the spread copies the own properties in
  order; each later key overwrites in place when present and is appended otherwise, which is
  \<open>AList.update\<close>.
\<close>

definition filterRunData :: "obj \<Rightarrow> resolveData \<Rightarrow> obj" where
  "filterRunData run rd =
     (if rd = RD_none
      then AList.update ''output'' JUndefined (AList.update ''input'' JUndefined run)
      else run)"

definition filterStepData :: "obj \<Rightarrow> resolveData \<Rightarrow> obj" where
  "filterStepData step rd =
     (if rd = RD_none
      then AList.update ''output'' JUndefined (AList.update ''input'' JUndefined step)
      else step)"

text \<open>\<open>const { eventData: _eventData, ...rest } = event; return rest\<close>.\<close>

definition filterEventData :: "obj \<Rightarrow> resolveData \<Rightarrow> obj" where
  "filterEventData event rd =
     (if rd = RD_none then AList.delete ''eventData'' event else event)"

definition filterHookData :: "obj \<Rightarrow> resolveData \<Rightarrow> obj" where
  "filterHookData hook rd =
     (if rd = RD_none then AList.delete ''metadata'' hook else hook)"

section \<open>The remote backend's step decoding (world-vercel/src/steps.ts)\<close>

text \<open>
  Two services of the JavaScript runtime are used by \<open>deserializeStep\<close> and taken as
  parameters: \<open>JSON.parse\<close> (\<open>None\<close> when it throws a \<open>SyntaxError\<close>) and the conversion
  \<open>String(v)\<close> (\<open>None\<close> when it throws a \<open>TypeError\<close>, as it does on an object whose own
  \<open>toString\<close> property is not callable).
\<close>

datatype js_exn = SyntaxError | TypeError

record js_runtime =
  JSON_parse :: "string \<Rightarrow> jsval option"
  String_of :: "jsval \<Rightarrow> string option"

definition jsonParse :: "js_runtime \<Rightarrow> string \<Rightarrow> js_exn + jsval" where
  "jsonParse rt s = (case JSON_parse rt s of None \<Rightarrow> Inl SyntaxError | Some v \<Rightarrow> Inr v)"

definition toString :: "js_runtime \<Rightarrow> jsval \<Rightarrow> js_exn + string" where
  "toString rt v = (case String_of rt v of None \<Rightarrow> Inl TypeError | Some s \<Rightarrow> Inr s)"

text \<open>\<open>v.k\<close> on any value: reading a property of \<open>null\<close> or \<open>undefined\<close> throws.\<close>

definition member :: "jsval \<Rightarrow> string \<Rightarrow> js_exn + jsval" where
  "member v k = (if nullish v then Inl TypeError else Inr (getProp v k))"

text \<open>
  The body of the \<open>try\<close> block of \<open>deserializeStep\<close> (lines 76 to 86): the value assigned
  to \<open>result.error\<close>, or the exception that leaves the block. The test
  \<open>typeof parsed === 'object' && parsed.message !== undefined\<close> reads \<open>parsed.message\<close>
  only when the first conjunct holds, and \<open>typeof null\<close> is \<open>'object'\<close>.
\<close>

definition tryParseError :: "js_runtime \<Rightarrow> string \<Rightarrow> js_exn + jsval" where
  "tryParseError rt errorSource =
     (case jsonParse rt errorSource of
        Inl e \<Rightarrow> Inl e
      | Inr parsed \<Rightarrow>
          (case (if typeof parsed = ''object''
                 then (case member parsed ''message'' of
                         Inl e \<Rightarrow> Inl e
                       | Inr m \<Rightarrow> Inr (m \<noteq> JUndefined))
                 else Inr False) of
             Inl e \<Rightarrow> Inl e
           | Inr True \<Rightarrow>
               Inr (JObj [(''message'', getProp parsed ''message''),
                          (''stack'', getProp parsed ''stack''),
                          (''code'', getProp parsed ''code'')])
           | Inr False \<Rightarrow>
               (case toString rt parsed of
                  Inl e \<Rightarrow> Inl e
                | Inr s \<Rightarrow> Inr (JObj [(''message'', JStr s)]))))"

text \<open>
  Lines 73 to 99: the value assigned to \<open>result.error\<close> for a given \<open>errorSource\<close>, \<open>None\<close>
  when no assignment is made. The \<open>catch\<close> clause turns every exception of the \<open>try\<close> block
  into \<open>{ message: errorSource }\<close>.
\<close>

definition decodeErrorSource :: "js_runtime \<Rightarrow> jsval \<Rightarrow> jsval option" where
  "decodeErrorSource rt errorSource =
     (if truthy errorSource then
        (case errorSource of
           JStr s \<Rightarrow>
             Some (case tryParseError rt s of
                     Inr e \<Rightarrow> e
                   | Inl _ \<Rightarrow> JObj [(''message'', JStr s)])
         | _ \<Rightarrow>
             if typeof errorSource = ''object'' \<and> errorSource \<noteq> JNull then
               Some (JObj [(''message'', coalesce (getProp errorSource ''message'') (JStr ''Unknown error'')),
                           (''stack'', getProp errorSource ''stack''),
                           (''code'', getProp errorSource ''code'')])
             else None)
      else None)"

text \<open>
  \<open>deserializeStep\<close>. The wire step is an object (the callers pass the output of an object
  schema). \<open>const { error, errorRef, ...rest } = wireStep\<close> reads the two fields and copies
  the other own properties in order; \<open>result.error = ...\<close> then appends the key.
\<close>

definition deserializeStep :: "js_runtime \<Rightarrow> obj \<Rightarrow> js_exn + obj" where
  "deserializeStep rt wireStep =
     (let error = getField wireStep ''error'';
          errorRef = getField wireStep ''errorRef'';
          rest = AList.delete ''errorRef'' (AList.delete ''error'' wireStep);
          result = rest;
          errorSource = coalesce error errorRef
      in Inr (case decodeErrorSource rt errorSource of
                None \<Rightarrow> result
              | Some e \<Rightarrow> AList.update ''error'' e result))"

text \<open>The \<open>filterStepData\<close> of world-vercel/src/steps.ts (lines 114 to 128).\<close>

definition vercel_filterStepData :: "js_runtime \<Rightarrow> obj \<Rightarrow> resolveData \<Rightarrow> js_exn + obj" where
  "vercel_filterStepData rt step rd =
     (if rd = RD_none then
        (let rest = AList.delete ''outputRef'' (AList.delete ''inputRef'' step) in
         case deserializeStep rt rest of
           Inl e \<Rightarrow> Inl e
         | Inr deserialized \<Rightarrow>
             Inr (AList.update ''output'' JUndefined
                   (AList.update ''input'' JUndefined deserialized)))
      else deserializeStep rt step)"

text \<open>
  The answers of an ECMAScript runtime on the inputs of the examples below: \<open>JSON.parse\<close> on
  four JSON texts, and \<open>String\<close> on the number 42 and on \<open>null\<close>. The examples apply
  \<open>JSON.parse\<close> to two more strings, \<open>boom\<close> and the empty string, which are not JSON.
\<close>

definition sample_runtime :: js_runtime where
  \<open>sample_runtime =
     \<lparr> JSON_parse = map_of
         [(''42'', JNum 42),
          ('' null'', JNull),
          (''{"message":42}'', JObj [(''message'', JNum 42)]),
          (''{"message":"disk full","code":"E7"}'',
             JObj [(''message'', JStr ''disk full''), (''code'', JStr ''E7'')])],
       String_of = map_of [(JNum 42, ''42''), (JNull, ''null'')] \<rparr>\<close>

text \<open>
  The \<open>StructuredError\<close> shape \<open>{ message: string, stack?: string, code?: string }\<close>, with
  no other property.
\<close>

definition optionalString :: "jsval \<Rightarrow> bool" where
  "optionalString v = (case v of JUndefined \<Rightarrow> True | JStr _ \<Rightarrow> True | _ \<Rightarrow> False)"

definition isString :: "jsval \<Rightarrow> bool" where
  "isString v = (case v of JStr _ \<Rightarrow> True | _ \<Rightarrow> False)"

definition isStructuredError :: "jsval \<Rightarrow> bool" where
  "isStructuredError v =
     (case v of
        JObj e \<Rightarrow>
          list_all (\<lambda>k. k = ''message'' \<or> k = ''stack'' \<or> k = ''code'') (map fst e) \<and>
          isString (getField e ''message'') \<and>
          optionalString (getField e ''stack'') \<and>
          optionalString (getField e ''code'')
      | _ \<Rightarrow> False)"


text \<open>
  Two values that a reader of properties cannot tell apart: equal, or two objects on which
  every property read gives the same value (so a property that is \<open>undefined\<close> counts as
  absent, and the order of the keys does not count).
\<close>

definition sameProps :: "jsval \<Rightarrow> jsval \<Rightarrow> bool" where
  "sameProps a b =
     (case (a, b) of
        (JObj x, JObj y) \<Rightarrow>
          list_all (\<lambda>k. getField x k = getField y k) (map fst x @ map fst y)
      | _ \<Rightarrow> a = b)"

section \<open>The filesystem backend's step storage (storage/steps.ts of world-local)\<close>

text \<open>
  \<open>path.join\<close> of the runtime, on a POSIX system: the non-empty arguments are joined with
  \<open>/\<close> and the result is normalised. Normalisation reads the path segment by segment: an
  empty segment and \<open>.\<close> are skipped; \<open>..\<close> removes the last segment kept, unless there is
  none or it is \<open>..\<close> itself, in which case \<open>..\<close> is kept for a relative path and dropped for
  an absolute one; any other segment is kept. \<open>res\<close> holds the segments kept, last first.
\<close>

fun segments :: "string \<Rightarrow> string list" where
  "segments [] = [[]]"
| "segments (c # cs) =
     (if c = CHR ''/'' then [] # segments cs
      else (case segments cs of [] \<Rightarrow> [[c]] | s # ss \<Rightarrow> (c # s) # ss))"

fun normalizeSegments :: "bool \<Rightarrow> string list \<Rightarrow> string list \<Rightarrow> string list" where
  "normalizeSegments allowAboveRoot res [] = res"
| "normalizeSegments allowAboveRoot res (seg # segs) =
     normalizeSegments allowAboveRoot
       (if seg = [] \<or> seg = ''.'' then res
        else if seg = ''..'' then
          (case res of
             [] \<Rightarrow> if allowAboveRoot then [''..''] else []
           | lastKept # below \<Rightarrow>
               if lastKept = ''..'' then (if allowAboveRoot then ''..'' # res else res)
               else below)
        else seg # res)
       segs"

fun joinWithSlash :: "string list \<Rightarrow> string" where
  "joinWithSlash [] = []"
| "joinWithSlash [s] = s"
| "joinWithSlash (s # t # ss) = s @ ''/'' @ joinWithSlash (t # ss)"

definition normalizeString :: "string \<Rightarrow> bool \<Rightarrow> string" where
  "normalizeString path allowAboveRoot =
     joinWithSlash (rev (normalizeSegments allowAboveRoot [] (segments path)))"

definition path_normalize :: "string \<Rightarrow> string" where
  "path_normalize path =
     (if path = [] then ''.''
      else
        (let isAbsolute = (hd path = CHR ''/'');
             trailingSeparator = (last path = CHR ''/'');
             p = normalizeString path (\<not> isAbsolute)
         in if p = [] then
              (if isAbsolute then ''/'' else if trailingSeparator then ''./'' else ''.'')
            else (if isAbsolute then ''/'' else []) @ p @
                 (if trailingSeparator then ''/'' else [])))"

definition path_join :: "string list \<Rightarrow> string" where
  "path_join args =
     (case filter (\<lambda>arg. arg \<noteq> []) args of
        [] \<Rightarrow> ''.''
      | joined \<Rightarrow> path_normalize (joinWithSlash joined))"

text \<open>
  The file system holds one JSON file per step, at \<open>steps/{runId}-{stepId}.json\<close> under
  \<open>basedir\<close>. It is modelled by the list of its JSON files in listing order, each with the
  normalised path that names it and the record it decodes to.
\<close>

type_synonym filesystem = "(string \<times> obj) list"

text \<open>
  The id of a file as an entry of a directory: the name without \<open>.json\<close> of a file that
  lies in the directory itself.
\<close>

definition fileIdIn :: "string \<Rightarrow> string \<Rightarrow> string option" where
  "fileIdIn directory filePath =
     (let name = drop (length directory + 1) filePath in
      if prefix (directory @ ''/'') filePath \<and> suffix ''.json'' name \<and> CHR ''/'' \<notin> set name
      then Some (take (length name - 5) name)
      else None)"

text \<open>
  Modelled from the spec: \<open>listJSONFiles\<close> of fs.ts, which is not among the sources: the ids
  of the JSON files of a directory, which the backend scans for reverse lookup.
\<close>

definition listJSONFiles :: "filesystem \<Rightarrow> string \<Rightarrow> string list" where
  "listJSONFiles fs directory = List.map_filter (fileIdIn directory) (map fst fs)"

text \<open>
  Modelled from the spec: \<open>readJSON\<close> of fs.ts, which is not among the sources: the record
  stored in the file at the given path, or \<open>null\<close> (\<open>None\<close>) when there is no such file.
\<close>

definition readJSON :: "filesystem \<Rightarrow> string \<Rightarrow> obj option" where
  "readJSON fs filePath = map_of fs filePath"

datatype js_error = Error string

record GetStepParams =
  resolveData :: "resolveData option"

text \<open>
  The block \<open>if (!runId) { ... }\<close> of \<open>steps.get\<close> (lines 108 to 115): the run id to use.
  \<open>!runId\<close> holds for \<open>undefined\<close> and for the empty string; \<open>endsWith\<close> is the suffix test;
  \<open>fileId.split('-')[0]\<close> is the part of \<open>fileId\<close> before its first \<open>-\<close>.
\<close>

definition locateRunId ::
  "filesystem \<Rightarrow> string \<Rightarrow> string option \<Rightarrow> string \<Rightarrow> js_error + string" where
  "locateRunId fs basedir runId stepId =
     (if runId = None \<or> runId = Some [] then
        (let fileIds = listJSONFiles fs (path_join [basedir, ''steps'']) in
         case find (\<lambda>fileId. suffix (''-'' @ stepId) fileId) fileIds of
           None \<Rightarrow> Inl (Error (''Step '' @ stepId @ '' not found''))
         | Some fileId \<Rightarrow>
             if fileId = [] then Inl (Error (''Step '' @ stepId @ '' not found''))
             else Inr (takeWhile (\<lambda>c. c \<noteq> CHR ''-'') fileId))
      else (case runId of Some r \<Rightarrow> Inr r | None \<Rightarrow> Inr []))"

text \<open>
  \<open>steps.get\<close> of \<open>createStepsStorage\<close>. \<open>DEFAULT_RESOLVE_DATA_OPTION\<close> comes from config.ts,
  which is not among the sources, and is a parameter.
\<close>

definition createStepsStorage_get ::
  "filesystem \<Rightarrow> string \<Rightarrow> resolveData \<Rightarrow> string option \<Rightarrow> string \<Rightarrow> GetStepParams option
     \<Rightarrow> js_error + obj" where
  "createStepsStorage_get fs basedir DEFAULT_RESOLVE_DATA_OPTION runId stepId params =
     (case locateRunId fs basedir runId stepId of
        Inl e \<Rightarrow> Inl e
      | Inr runId' \<Rightarrow>
          (let compositeKey = runId' @ ''-'' @ stepId;
               stepPath = path_join [basedir, ''steps'', compositeKey @ ''.json'']
           in
           case readJSON fs stepPath of
             None \<Rightarrow> Inl (Error (''Step '' @ stepId @ '' in run '' @ runId' @ '' not found''))
           | Some step \<Rightarrow>
               (let rd = (case params of
                            None \<Rightarrow> DEFAULT_RESOLVE_DATA_OPTION
                          | Some p \<Rightarrow>
                              (case resolveData p of
                                 None \<Rightarrow> DEFAULT_RESOLVE_DATA_OPTION
                               | Some v \<Rightarrow> v))
                in Inr (filterStepData step rd))))"

section \<open>The serialization boundary (world/src/serialization.ts)\<close>

text \<open>
  The schema combinators of the validation library, as far as this file uses them: a schema
  maps a value to the validated value or to a validation error. \<open>z.instanceof(Uint8Array)\<close>
  accepts byte arrays only, \<open>z.any()\<close> accepts every value, and \<open>z.union\<close> returns the
  result of the first option that accepts.
\<close>

datatype ValidationError = ZodError string

type_synonym schema = "jsval \<Rightarrow> ValidationError + jsval"

definition z_instanceof_Uint8Array :: schema where
  "z_instanceof_Uint8Array v =
     (case v of JBytes _ \<Rightarrow> Inr v | _ \<Rightarrow> Inl (ZodError ''Input not instance of Uint8Array''))"

definition z_any :: schema where
  "z_any v = Inr v"

fun z_union :: "schema list \<Rightarrow> schema" where
  "z_union [] v = Inl (ZodError ''Invalid input'')"
| "z_union (s # ss) v = (case s v of Inr r \<Rightarrow> Inr r | Inl _ \<Rightarrow> z_union ss v)"

definition BinarySerializedDataSchema :: schema where
  "BinarySerializedDataSchema = z_instanceof_Uint8Array"

definition LegacySerializedDataSchemaV1 :: schema where
  "LegacySerializedDataSchemaV1 = z_any"

definition SerializedDataSchema :: schema where
  "SerializedDataSchema = z_union [BinarySerializedDataSchema, LegacySerializedDataSchemaV1]"

section \<open>The remote backend's storage (world-vercel/src/storage.ts)\<close>

text \<open>
  The request functions that \<open>createStorage\<close> imports are its parameters; each returns the
  promise of a response, of a type left open. \<open>config\<close> is optional.
\<close>

record ('c, 'r) requests =
  createWorkflowRunEvent :: "jsval \<Rightarrow> jsval \<Rightarrow> jsval \<Rightarrow> 'c option \<Rightarrow> 'r"
  getWorkflowRunEvents :: "jsval \<Rightarrow> 'c option \<Rightarrow> 'r"
  getHook :: "jsval \<Rightarrow> jsval \<Rightarrow> 'c option \<Rightarrow> 'r"
  getHookByToken :: "jsval \<Rightarrow> 'c option \<Rightarrow> 'r"
  listHooks :: "jsval \<Rightarrow> 'c option \<Rightarrow> 'r"
  getWorkflowRun :: "jsval \<Rightarrow> jsval \<Rightarrow> 'c option \<Rightarrow> 'r"
  listWorkflowRuns :: "jsval \<Rightarrow> 'c option \<Rightarrow> 'r"
  getStep :: "jsval \<Rightarrow> jsval \<Rightarrow> jsval \<Rightarrow> 'c option \<Rightarrow> 'r"
  listWorkflowRunSteps :: "jsval \<Rightarrow> 'c option \<Rightarrow> 'r"

record 'r Storage =
  runs_get :: "jsval \<Rightarrow> jsval \<Rightarrow> 'r"
  runs_list :: "jsval \<Rightarrow> 'r"
  steps_get :: "jsval \<Rightarrow> jsval \<Rightarrow> jsval \<Rightarrow> 'r"
  steps_list :: "jsval \<Rightarrow> 'r"
  events_create :: "jsval \<Rightarrow> jsval \<Rightarrow> jsval \<Rightarrow> 'r"
  events_list :: "jsval \<Rightarrow> 'r"
  events_listByCorrelationId :: "jsval \<Rightarrow> 'r"
  hooks_get :: "jsval \<Rightarrow> jsval \<Rightarrow> 'r"
  hooks_getByToken :: "jsval \<Rightarrow> 'r"
  hooks_list :: "jsval \<Rightarrow> 'r"

definition createStorage :: "('c, 'r) requests \<Rightarrow> 'c option \<Rightarrow> 'r Storage" where
  "createStorage api config =
     \<lparr> runs_get = (\<lambda>id params. getWorkflowRun api id params config),
       runs_list = (\<lambda>params. listWorkflowRuns api params config),
       steps_get = (\<lambda>runId stepId params. getStep api runId stepId params config),
       steps_list = (\<lambda>params. listWorkflowRunSteps api params config),
       events_create = (\<lambda>runId data params. createWorkflowRunEvent api runId data params config),
       events_list = (\<lambda>params. getWorkflowRunEvents api params config),
       events_listByCorrelationId = (\<lambda>params. getWorkflowRunEvents api params config),
       hooks_get = (\<lambda>hookId params. getHook api hookId params config),
       hooks_getByToken = (\<lambda>token. getHookByToken api token config),
       hooks_list = (\<lambda>params. listHooks api params config) \<rparr>"

section \<open>Properties of object updates\<close>

lemma getField_update:
  "getField (AList.update k v ob) k' = (if k' = k then v else getField ob k')"
  by (simp add: getField_def update_conv')

lemma getField_delete:
  "getField (AList.delete k ob) k' = (if k' = k then JUndefined else getField ob k')"
  by (simp add: getField_def delete_conv')

lemma map_of_update_other:
  "k' \<noteq> k \<Longrightarrow> map_of (AList.update k v ob) k' = map_of ob k'"
  by (simp add: update_conv')

section \<open>Properties of the step decoding\<close>

lemma deserializeStep_result:
  "deserializeStep rt w =
     Inr (case decodeErrorSource rt (coalesce (getField w ''error'') (getField w ''errorRef'')) of
            None \<Rightarrow> AList.delete ''errorRef'' (AList.delete ''error'' w)
          | Some e \<Rightarrow> AList.update ''error'' e (AList.delete ''errorRef'' (AList.delete ''error'' w)))"
  by (simp add: deserializeStep_def Let_def)

lemma deserializeStep_error:
  assumes "deserializeStep rt w = Inr r"
  shows "getField r ''error'' =
     (case decodeErrorSource rt (coalesce (getField w ''error'') (getField w ''errorRef'')) of
        None \<Rightarrow> JUndefined | Some e \<Rightarrow> e)"
  using assms
  by (auto simp: deserializeStep_result getField_update getField_delete split: option.splits)

lemma deserializeStep_other:
  assumes "deserializeStep rt w = Inr r" and "k \<noteq> ''error''" and "k \<noteq> ''errorRef''"
  shows "map_of r k = map_of w k"
  using assms
  by (auto simp: deserializeStep_result update_conv' delete_conv' split: option.splits)


lemma decodeErrorSource_falsy: "\<not> truthy src \<Longrightarrow> decodeErrorSource rt src = None"
  by (simp add: decodeErrorSource_def)

lemma decodeErrorSource_malformed:
  "s \<noteq> [] \<Longrightarrow> JSON_parse rt s = None \<Longrightarrow>
   decodeErrorSource rt (JStr s) = Some (JObj [(''message'', JStr s)])"
  by (simp add: decodeErrorSource_def tryParseError_def jsonParse_def)

lemma decodeErrorSource_parsed_object:
  "s \<noteq> [] \<Longrightarrow> JSON_parse rt s = Some p \<Longrightarrow> typeof p = ''object'' \<Longrightarrow> p \<noteq> JNull \<Longrightarrow>
   getProp p ''message'' \<noteq> JUndefined \<Longrightarrow>
   decodeErrorSource rt (JStr s) =
     Some (JObj [(''message'', getProp p ''message''), (''stack'', getProp p ''stack''),
                 (''code'', getProp p ''code'')])"
  by (cases p) (simp_all add: decodeErrorSource_def tryParseError_def jsonParse_def member_def)

lemma decodeErrorSource_parsed_other:
  "s \<noteq> [] \<Longrightarrow> JSON_parse rt s = Some p \<Longrightarrow>
   typeof p \<noteq> ''object'' \<or> (p \<noteq> JNull \<and> getProp p ''message'' = JUndefined) \<Longrightarrow>
   String_of rt p = Some m \<Longrightarrow>
   decodeErrorSource rt (JStr s) = Some (JObj [(''message'', JStr m)])"
  by (cases p) (auto simp: decodeErrorSource_def tryParseError_def jsonParse_def member_def toString_def)

lemma decodeErrorSource_parsed_null:
  "s \<noteq> [] \<Longrightarrow> JSON_parse rt s = Some JNull \<Longrightarrow>
   decodeErrorSource rt (JStr s) = Some (JObj [(''message'', JStr s)])"
  by (simp add: decodeErrorSource_def tryParseError_def jsonParse_def member_def)

lemma decodeErrorSource_String_throws:
  "s \<noteq> [] \<Longrightarrow> JSON_parse rt s = Some p \<Longrightarrow>
   typeof p \<noteq> ''object'' \<or> (p \<noteq> JNull \<and> getProp p ''message'' = JUndefined) \<Longrightarrow>
   String_of rt p = None \<Longrightarrow>
   decodeErrorSource rt (JStr s) = Some (JObj [(''message'', JStr s)])"
  by (cases p) (auto simp: decodeErrorSource_def tryParseError_def jsonParse_def member_def toString_def)

lemma decodeErrorSource_object:
  "typeof src = ''object'' \<Longrightarrow> src \<noteq> JNull \<Longrightarrow>
   decodeErrorSource rt src =
     Some (JObj [(''message'', coalesce (getProp src ''message'') (JStr ''Unknown error'')),
                 (''stack'', getProp src ''stack''), (''code'', getProp src ''code'')])"
  by (cases src) (simp_all add: decodeErrorSource_def)

lemma decodeErrorSource_primitive:
  "typeof src \<noteq> ''object'' \<Longrightarrow> typeof src \<noteq> ''string'' \<Longrightarrow> decodeErrorSource rt src = None"
  by (cases src) (simp_all add: decodeErrorSource_def)

lemma decodeErrorSource_shape:
  "decodeErrorSource rt src = None \<or>
   (\<exists>m. decodeErrorSource rt src = Some (JObj [(''message'', JStr m)])) \<or>
   (\<exists>m st c. decodeErrorSource rt src = Some (JObj [(''message'', m), (''stack'', st), (''code'', c)])
      \<and> m \<noteq> JUndefined \<and>
      ((\<exists>t. m = JStr t) \<or> m = getProp src ''message'' \<or>
       (\<exists>s p. src = JStr s \<and> JSON_parse rt s = Some p \<and> m = getProp p ''message'')))"
proof (cases "truthy src")
  case False
  then show ?thesis by (simp add: decodeErrorSource_falsy)
next
  case True
  show ?thesis
  proof (cases src)
    case (JStr s)
    with True have ne: "s \<noteq> []" by simp
    show ?thesis
    proof (cases "JSON_parse rt s")
      case None
      with ne JStr show ?thesis by (simp add: decodeErrorSource_malformed)
    next
      case (Some p)
      show ?thesis
      proof (cases "typeof p = ''object'' \<and> p \<noteq> JNull \<and> getProp p ''message'' \<noteq> JUndefined")
        case True
        with ne Some JStr show ?thesis by (simp add: decodeErrorSource_parsed_object)
      next
        case False
        show ?thesis
        proof (cases "p = JNull")
          case True
          with ne Some JStr show ?thesis by (simp add: decodeErrorSource_parsed_null)
        next
          case notnull: False
          with False have oth: "typeof p \<noteq> ''object'' \<or> (p \<noteq> JNull \<and> getProp p ''message'' = JUndefined)"
            by blast
          show ?thesis
          proof (cases "String_of rt p")
            case None
            with ne Some JStr oth show ?thesis by (simp add: decodeErrorSource_String_throws)
          next
            case (Some m)
            with ne \<open>JSON_parse rt s = Some p\<close> JStr oth show ?thesis
              by (simp add: decodeErrorSource_parsed_other)
          qed
        qed
      qed
    qed
  next
    case JUndefined with True show ?thesis by simp
  next
    case JNull with True show ?thesis by simp
  next
    case (JBool b) then show ?thesis by (simp add: decodeErrorSource_primitive)
  next
    case (JNum n) then show ?thesis by (simp add: decodeErrorSource_primitive)
  next
    case (JBytes b) then show ?thesis
      by (simp add: decodeErrorSource_object coalesce_def getProp_def)
  next
    case (JArr a) then show ?thesis
      by (simp add: decodeErrorSource_object coalesce_def getProp_def)
  next
    case (JObj ob)
    then show ?thesis
      by (cases "getProp (JObj ob) ''message''") (simp_all add: decodeErrorSource_object coalesce_def)
  qed
qed


lemma vercel_none_result:
  "vercel_filterStepData rt e RD_none = Inr r \<Longrightarrow>
   \<exists>d. deserializeStep rt (AList.delete ''outputRef'' (AList.delete ''inputRef'' e)) = Inr d \<and>
       r = AList.update ''output'' JUndefined (AList.update ''input'' JUndefined d)"
  by (auto simp: vercel_filterStepData_def Let_def split: sum.splits)

lemma vercel_returns: "\<exists>r. vercel_filterStepData rt e rd = Inr r"
  by (simp add: vercel_filterStepData_def deserializeStep_result Let_def)

section \<open>Decoding of the wire error\<close>

text \<open>Evaluation of the decoding on concrete wire steps.\<close>

lemmas sample_eval = deserializeStep_def decodeErrorSource_def tryParseError_def jsonParse_def
  toString_def member_def getField_def getProp_def coalesce_def sample_runtime_def

text \<open>
  C2, as the code has it. \<open>errorSource\<close> is \<open>error ?? errorRef\<close>: the returned error is
  built from the inline \<open>error\<close> field whenever that field is neither \<open>undefined\<close> nor
  \<open>null\<close>, whatever \<open>errorRef\<close> holds; it is built from \<open>errorRef\<close> only when the inline field
  is \<open>undefined\<close> or \<open>null\<close>.
\<close>

theorem inline_error_precedence:
  "\<exists>r. deserializeStep rt w = Inr r \<and>
     (\<not> nullish (getField w ''error'') \<longrightarrow>
        getField r ''error'' =
          (case decodeErrorSource rt (getField w ''error'') of None \<Rightarrow> JUndefined | Some e \<Rightarrow> e)) \<and>
     (nullish (getField w ''error'') \<longrightarrow>
        getField r ''error'' =
          (case decodeErrorSource rt (getField w ''errorRef'') of None \<Rightarrow> JUndefined | Some e \<Rightarrow> e))"
proof -
  obtain r where r: "deserializeStep rt w = Inr r"
    by (simp add: deserializeStep_result)
  from deserializeStep_error [OF r] show ?thesis
    using r by (simp add: coalesce_def)
qed

theorem inline_error_precedence_witness:
  "\<not> nullish (getField [(''stepId'', JStr ''s1''), (''error'', JStr ''boom''),
                        (''errorRef'', JObj [(''message'', JStr ''resolved'')])] ''error'') \<and>
   (\<exists>r. deserializeStep sample_runtime
           [(''stepId'', JStr ''s1''), (''error'', JStr ''boom''),
            (''errorRef'', JObj [(''message'', JStr ''resolved'')])] = Inr r \<and>
        getField r ''error'' = JObj [(''message'', JStr ''boom'')]) \<and>
   nullish (getField [(''stepId'', JStr ''s1''),
                      (''errorRef'', JObj [(''message'', JStr ''resolved'')])] ''error'') \<and>
   (\<exists>r. deserializeStep sample_runtime
           [(''stepId'', JStr ''s1''),
            (''errorRef'', JObj [(''message'', JStr ''resolved'')])] = Inr r \<and>
        getField r ''error'' =
          JObj [(''message'', JStr ''resolved''), (''stack'', JUndefined), (''code'', JUndefined)])"
  using inline_error_precedence [of sample_runtime
      "[(''stepId'', JStr ''s1''), (''error'', JStr ''boom''),
        (''errorRef'', JObj [(''message'', JStr ''resolved'')])]"]
    inline_error_precedence [of sample_runtime
      "[(''stepId'', JStr ''s1''), (''errorRef'', JObj [(''message'', JStr ''resolved'')])]"]
  by (simp add: sample_eval)

text \<open>
  The claim that the resolved reference wins fails: with both fields present the result
  carries the inline message (a plain string, or an object), not the message of \<open>errorRef\<close>,
  which is used in the third step only, where \<open>error\<close> is absent.
\<close>

theorem resolved_ref_precedence_counterexample:
  "deserializeStep sample_runtime
     [(''stepId'', JStr ''s1''), (''error'', JStr ''boom''),
      (''errorRef'', JObj [(''message'', JStr ''resolved'')])]
     = Inr [(''stepId'', JStr ''s1''), (''error'', JObj [(''message'', JStr ''boom'')])] \<and>
   deserializeStep sample_runtime
     [(''stepId'', JStr ''s1''), (''error'', JObj [(''message'', JStr ''inline'')]),
      (''errorRef'', JObj [(''message'', JStr ''resolved'')])]
     = Inr [(''stepId'', JStr ''s1''),
            (''error'', JObj [(''message'', JStr ''inline''), (''stack'', JUndefined),
                              (''code'', JUndefined)])] \<and>
   deserializeStep sample_runtime
     [(''stepId'', JStr ''s1''), (''errorRef'', JObj [(''message'', JStr ''resolved'')])]
     = Inr [(''stepId'', JStr ''s1''),
            (''error'', JObj [(''message'', JStr ''resolved''), (''stack'', JUndefined),
                              (''code'', JUndefined)])]"
  by (simp add: sample_eval)

text \<open>
  C3, as the code has it. On every wire step \<open>deserializeStep\<close> returns (every exception of
  the \<open>try\<close> block is caught), and the \<open>error\<close> of its result is absent, or the fresh object
  \<open>{ message }\<close> with a string message, or a fresh object \<open>{ message, stack, code }\<close> whose
  message is not \<open>undefined\<close>: never the raw string. The message is a string, except where it
  is copied as it is from the \<open>message\<close> field of the source object or of the parsed JSON
  value.
\<close>

theorem deserializeStep_never_throws:
  "\<exists>r. deserializeStep rt w = Inr r \<and>
     (getField r ''error'' = JUndefined \<or>
      (\<exists>m. getField r ''error'' = JObj [(''message'', JStr m)]) \<or>
      (\<exists>m st c. getField r ''error'' = JObj [(''message'', m), (''stack'', st), (''code'', c)] \<and>
         m \<noteq> JUndefined \<and>
         ((\<exists>t. m = JStr t) \<or>
          m = getProp (coalesce (getField w ''error'') (getField w ''errorRef'')) ''message'' \<or>
          (\<exists>s p. coalesce (getField w ''error'') (getField w ''errorRef'') = JStr s \<and>
                 JSON_parse rt s = Some p \<and> m = getProp p ''message''))))"
proof -
  obtain r where r: "deserializeStep rt w = Inr r"
    by (simp add: deserializeStep_result)
  let ?src = "coalesce (getField w ''error'') (getField w ''errorRef'')"
  have e: "getField r ''error'' =
      (case decodeErrorSource rt ?src of None \<Rightarrow> JUndefined | Some e \<Rightarrow> e)"
    by (rule deserializeStep_error [OF r])
  from decodeErrorSource_shape [of rt ?src] show ?thesis
  proof (elim disjE exE conjE)
    assume "decodeErrorSource rt ?src = None"
    with e r show ?thesis by simp
  next
    fix m assume "decodeErrorSource rt ?src = Some (JObj [(''message'', JStr m)])"
    with e r show ?thesis by simp
  next
    fix m st c t
    assume "decodeErrorSource rt ?src = Some (JObj [(''message'', m), (''stack'', st), (''code'', c)])"
      and "m \<noteq> JUndefined" and "m = JStr t"
    with e r show ?thesis by simp
  next
    fix m st c
    assume "decodeErrorSource rt ?src = Some (JObj [(''message'', m), (''stack'', st), (''code'', c)])"
      and "m \<noteq> JUndefined" and "m = getProp ?src ''message''"
    with e r show ?thesis by simp
  next
    fix m st c s p
    assume "decodeErrorSource rt ?src = Some (JObj [(''message'', m), (''stack'', st), (''code'', c)])"
      and "m \<noteq> JUndefined" and "?src = JStr s" and "JSON_parse rt s = Some p"
      and "m = getProp p ''message''"
    with e r show ?thesis by auto
  qed
qed

text \<open>
  The message of the result need not be a string: the \<open>message\<close> of a JSON-encoded error, or
  of a resolved reference, is copied without a check of its type.
\<close>

theorem string_message_counterexample:
  \<open>deserializeStep sample_runtime
     [(''stepId'', JStr ''s1''), (''error'', JStr ''{"message":42}'')]
     = Inr [(''stepId'', JStr ''s1''),
            (''error'', JObj [(''message'', JNum 42), (''stack'', JUndefined),
                              (''code'', JUndefined)])] \<and>
   deserializeStep sample_runtime
     [(''stepId'', JStr ''s1''), (''errorRef'', JObj [(''message'', JNum 42)])]
     = Inr [(''stepId'', JStr ''s1''),
            (''error'', JObj [(''message'', JNum 42), (''stack'', JUndefined),
                              (''code'', JUndefined)])] \<and>
   \<not> isStructuredError
       (JObj [(''message'', JNum 42), (''stack'', JUndefined), (''code'', JUndefined)])\<close>
  by (simp add: sample_eval isStructuredError_def isString_def)

text \<open>
  C4, as the code has it. The source of the error is \<open>error ?? errorRef\<close>. The empty string
  gives no error at all (the guard \<open>if (errorSource)\<close> fails before any parsing). For a
  non-empty string \<open>s\<close>: when \<open>JSON.parse\<close> throws, the error is \<open>{ message: s }\<close>; when it
  returns a non-null object (or array) with a \<open>message\<close> that is not \<open>undefined\<close>, the three
  fields are copied; when it returns a value that is not of type object, or a non-null
  object without \<open>message\<close>, and \<open>String\<close> returns \<open>m\<close>, the error is \<open>{ message: m }\<close>. A
  source of type object (not \<open>null\<close>) has its fields copied, the message defaulting to
  \<open>'Unknown error'\<close> when it is \<open>undefined\<close> or \<open>null\<close>.
\<close>

theorem error_decoding_cases:
  assumes "deserializeStep rt w = Inr r"
    and "coalesce (getField w ''error'') (getField w ''errorRef'') = src"
  shows
    "(src = JStr [] \<longrightarrow> getField r ''error'' = JUndefined) \<and>
     (\<forall>s. src = JStr s \<and> s \<noteq> [] \<longrightarrow>
        (JSON_parse rt s = None \<longrightarrow> getField r ''error'' = JObj [(''message'', JStr s)]) \<and>
        (\<forall>p. JSON_parse rt s = Some p \<longrightarrow>
           (typeof p = ''object'' \<and> p \<noteq> JNull \<and> getProp p ''message'' \<noteq> JUndefined \<longrightarrow>
              getField r ''error'' =
                JObj [(''message'', getProp p ''message''), (''stack'', getProp p ''stack''),
                      (''code'', getProp p ''code'')]) \<and>
           (\<forall>m. (typeof p \<noteq> ''object'' \<or> (p \<noteq> JNull \<and> getProp p ''message'' = JUndefined)) \<and>
                String_of rt p = Some m \<longrightarrow>
              getField r ''error'' = JObj [(''message'', JStr m)]))) \<and>
     (typeof src = ''object'' \<and> src \<noteq> JNull \<longrightarrow>
        getField r ''error'' =
          JObj [(''message'', coalesce (getProp src ''message'') (JStr ''Unknown error'')),
                (''stack'', getProp src ''stack''), (''code'', getProp src ''code'')])"
proof -
  have e: "getField r ''error'' =
      (case decodeErrorSource rt src of None \<Rightarrow> JUndefined | Some e \<Rightarrow> e)"
    using deserializeStep_error [OF assms(1)] assms(2) by simp
  have empty: "src = JStr [] \<longrightarrow> getField r ''error'' = JUndefined"
    using e by (simp add: decodeErrorSource_falsy)
  have malformed: "getField r ''error'' = JObj [(''message'', JStr s)]"
    if "src = JStr s" "s \<noteq> []" "JSON_parse rt s = None" for s
    using e that by (simp add: decodeErrorSource_malformed)
  have direct: "getField r ''error'' =
      JObj [(''message'', getProp p ''message''), (''stack'', getProp p ''stack''),
            (''code'', getProp p ''code'')]"
    if "src = JStr s" "s \<noteq> []" "JSON_parse rt s = Some p" "typeof p = ''object''" "p \<noteq> JNull"
      "getProp p ''message'' \<noteq> JUndefined" for s p
    using e that by (simp add: decodeErrorSource_parsed_object)
  have other: "getField r ''error'' = JObj [(''message'', JStr m)]"
    if "src = JStr s" "s \<noteq> []" "JSON_parse rt s = Some p"
      "typeof p \<noteq> ''object'' \<or> (p \<noteq> JNull \<and> getProp p ''message'' = JUndefined)"
      "String_of rt p = Some m" for s p m
    using e that decodeErrorSource_parsed_other [of s rt p m] by simp
  have object: "typeof src = ''object'' \<and> src \<noteq> JNull \<longrightarrow>
      getField r ''error'' =
        JObj [(''message'', coalesce (getProp src ''message'') (JStr ''Unknown error'')),
              (''stack'', getProp src ''stack''), (''code'', getProp src ''code'')]"
    using e by (simp add: decodeErrorSource_object)
  show ?thesis
    using empty malformed direct other object by blast
qed

theorem error_decoding_cases_witness:
  \<open>(\<exists>r. deserializeStep sample_runtime [(''stepId'', JStr ''s1''), (''error'', JStr [])] = Inr r \<and>
        getField r ''error'' = JUndefined) \<and>
   ''boom'' \<noteq> [] \<and> JSON_parse sample_runtime ''boom'' = None \<and>
   (\<exists>r. deserializeStep sample_runtime [(''stepId'', JStr ''s1''), (''error'', JStr ''boom'')] = Inr r \<and>
        getField r ''error'' = JObj [(''message'', JStr ''boom'')]) \<and>
   JSON_parse sample_runtime ''{"message":"disk full","code":"E7"}''
     = Some (JObj [(''message'', JStr ''disk full''), (''code'', JStr ''E7'')]) \<and>
   typeof (JObj [(''message'', JStr ''disk full''), (''code'', JStr ''E7'')]) = ''object'' \<and>
   getProp (JObj [(''message'', JStr ''disk full''), (''code'', JStr ''E7'')]) ''message''
     \<noteq> JUndefined \<and>
   (\<exists>r. deserializeStep sample_runtime
           [(''stepId'', JStr ''s1''),
            (''error'', JStr ''{"message":"disk full","code":"E7"}'')] = Inr r \<and>
        getField r ''error'' =
          JObj [(''message'', JStr ''disk full''), (''stack'', JUndefined), (''code'', JStr ''E7'')]) \<and>
   JSON_parse sample_runtime ''42'' = Some (JNum 42) \<and> typeof (JNum 42) \<noteq> ''object'' \<and>
   String_of sample_runtime (JNum 42) = Some ''42'' \<and>
   (\<exists>r. deserializeStep sample_runtime [(''stepId'', JStr ''s1''), (''error'', JStr ''42'')] = Inr r \<and>
        getField r ''error'' = JObj [(''message'', JStr ''42'')]) \<and>
   typeof (JObj [(''stack'', JStr ''at f'')]) = ''object'' \<and>
   (\<exists>r. deserializeStep sample_runtime
           [(''stepId'', JStr ''s1''), (''errorRef'', JObj [(''stack'', JStr ''at f'')])] = Inr r \<and>
        getField r ''error'' =
          JObj [(''message'', JStr ''Unknown error''), (''stack'', JStr ''at f''),
                (''code'', JUndefined)])\<close>
proof -
  let ?w1 = "[(''stepId'', JStr ''s1''), (''error'', JStr [])]"
  let ?w2 = "[(''stepId'', JStr ''s1''), (''error'', JStr ''boom'')]"
  let ?w3 = \<open>[(''stepId'', JStr ''s1''), (''error'', JStr ''{"message":"disk full","code":"E7"}'')]\<close>
  let ?w4 = "[(''stepId'', JStr ''s1''), (''error'', JStr ''42'')]"
  let ?w5 = "[(''stepId'', JStr ''s1''), (''errorRef'', JObj [(''stack'', JStr ''at f'')])]"
  obtain r1 where r1: "deserializeStep sample_runtime ?w1 = Inr r1"
    by (simp add: deserializeStep_result)
  obtain r2 where r2: "deserializeStep sample_runtime ?w2 = Inr r2"
    by (simp add: deserializeStep_result)
  obtain r3 where r3: "deserializeStep sample_runtime ?w3 = Inr r3"
    by (simp add: deserializeStep_result)
  obtain r4 where r4: "deserializeStep sample_runtime ?w4 = Inr r4"
    by (simp add: deserializeStep_result)
  obtain r5 where r5: "deserializeStep sample_runtime ?w5 = Inr r5"
    by (simp add: deserializeStep_result)
  have s1: "coalesce (getField ?w1 ''error'') (getField ?w1 ''errorRef'') = JStr []"
    and s2: "coalesce (getField ?w2 ''error'') (getField ?w2 ''errorRef'') = JStr ''boom''"
    and s3: \<open>coalesce (getField ?w3 ''error'') (getField ?w3 ''errorRef'')
               = JStr ''{"message":"disk full","code":"E7"}''\<close>
    and s4: "coalesce (getField ?w4 ''error'') (getField ?w4 ''errorRef'') = JStr ''42''"
    and s5: "coalesce (getField ?w5 ''error'') (getField ?w5 ''errorRef'')
               = JObj [(''stack'', JStr ''at f'')]"
    by (simp_all add: getField_def coalesce_def)
  have e1: "getField r1 ''error'' = JUndefined"
    using error_decoding_cases [OF r1 s1] by simp
  have e2: "getField r2 ''error'' = JObj [(''message'', JStr ''boom'')]"
    using error_decoding_cases [OF r2 s2] by (simp add: sample_runtime_def)
  have e3: "getField r3 ''error'' =
      JObj [(''message'', JStr ''disk full''), (''stack'', JUndefined), (''code'', JStr ''E7'')]"
    using error_decoding_cases [OF r3 s3] by (simp add: sample_runtime_def getProp_def getField_def)
  have e4: "getField r4 ''error'' = JObj [(''message'', JStr ''42'')]"
    using error_decoding_cases [OF r4 s4] by (simp add: sample_runtime_def)
  have e5: "getField r5 ''error'' =
      JObj [(''message'', JStr ''Unknown error''), (''stack'', JStr ''at f''), (''code'', JUndefined)]"
    using error_decoding_cases [OF r5 s5] by (simp add: getProp_def getField_def coalesce_def)
  show ?thesis
    using r1 r2 r3 r4 r5 e1 e2 e3 e4 e5
    by (simp add: sample_runtime_def getProp_def getField_def)
qed

text \<open>
  The empty string is a string-valued wire error on which \<open>JSON.parse\<close> fails, and the result
  has no error instead of \<open>{ message: '' }\<close>.
\<close>

theorem empty_string_error_counterexample:
  "JSON_parse sample_runtime [] = None \<and>
   deserializeStep sample_runtime [(''stepId'', JStr ''s1''), (''error'', JStr [])]
     = Inr [(''stepId'', JStr ''s1'')] \<and>
   getField [(''stepId'', JStr ''s1'')] ''error'' = JUndefined \<and>
   getField [(''stepId'', JStr ''s1'')] ''error'' \<noteq> JObj [(''message'', JStr [])]"
  by (simp add: sample_eval)

text \<open>
  A parsed \<open>null\<close> is of type object, so \<open>parsed.message\<close> throws inside the \<open>try\<close> block and
  the raw string becomes the message.
\<close>

lemma parsed_null_keeps_raw_string:
  "JSON_parse sample_runtime '' null'' = Some JNull \<and>
   String_of sample_runtime JNull = Some ''null'' \<and>
   deserializeStep sample_runtime [(''stepId'', JStr ''s1''), (''error'', JStr '' null'')]
     = Inr [(''stepId'', JStr ''s1''), (''error'', JObj [(''message'', JStr '' null'')])]"
  by (simp add: sample_eval)

section \<open>Projection frame\<close>

text \<open>
  C7. With \<open>resolveData = 'all'\<close> each shared filter returns the entity itself. With
  \<open>resolveData = 'none'\<close> the copy agrees with the original on every property other than the
  bulky ones (\<open>input\<close>/\<open>output\<close> for runs and steps, \<open>eventData\<close> for events, \<open>metadata\<close> for
  hooks): the same keys are present, with the same values.
\<close>

theorem projection_frame:
  "filterRunData e RD_all = e \<and> filterStepData e RD_all = e \<and>
   filterEventData e RD_all = e \<and> filterHookData e RD_all = e \<and>
   (\<forall>k. k \<noteq> ''input'' \<and> k \<noteq> ''output'' \<longrightarrow>
      map_of (filterRunData e RD_none) k = map_of e k \<and>
      map_of (filterStepData e RD_none) k = map_of e k) \<and>
   (\<forall>k. k \<noteq> ''eventData'' \<longrightarrow> map_of (filterEventData e RD_none) k = map_of e k) \<and>
   (\<forall>k. k \<noteq> ''metadata'' \<longrightarrow> map_of (filterHookData e RD_none) k = map_of e k)"
  by (simp add: filterRunData_def filterStepData_def filterEventData_def filterHookData_def
      update_conv')

theorem projection_frame_witness:
  "filterRunData [(''runId'', JStr ''r1''), (''input'', JBytes [1, 2]), (''status'', JStr ''running'')] RD_none
     = [(''runId'', JStr ''r1''), (''input'', JUndefined), (''status'', JStr ''running''), (''output'', JUndefined)]
   \<and> ''status'' \<noteq> ''input'' \<and> ''status'' \<noteq> ''output''
   \<and> map_of (filterRunData [(''runId'', JStr ''r1''), (''input'', JBytes [1, 2]), (''status'', JStr ''running'')] RD_none) ''status''
       = Some (JStr ''running'')
   \<and> map_of (filterEventData [(''eventId'', JStr ''e1''), (''eventData'', JStr ''x'')] RD_none) ''eventId''
       = Some (JStr ''e1'')"
  using projection_frame [of "[(''runId'', JStr ''r1''), (''input'', JBytes [1, 2]), (''status'', JStr ''running'')]"]
    projection_frame [of "[(''eventId'', JStr ''e1''), (''eventData'', JStr ''x'')]"]
  by (simp add: filterRunData_def)

section \<open>Projection of the bulky fields\<close>

text \<open>
  C1. For every entity and whatever it stores, the projection for \<open>resolveData = 'none'\<close>
  reads \<open>undefined\<close> at the bulky fields (\<open>input\<close> and \<open>output\<close> of a run or a step, by the
  shared filter and by the remote backend's filter; \<open>eventData\<close> of an event; \<open>metadata\<close> of
  a hook): neither the stored bytes nor an empty placeholder. The projection for
  \<open>resolveData = 'all'\<close> has each of these fields exactly when the entity has it, with the
  same value.
\<close>

theorem none_projection_absent:
  "getField (filterRunData e RD_none) ''input'' = JUndefined \<and>
   getField (filterRunData e RD_none) ''output'' = JUndefined \<and>
   getField (filterStepData e RD_none) ''input'' = JUndefined \<and>
   getField (filterStepData e RD_none) ''output'' = JUndefined \<and>
   getField (filterEventData e RD_none) ''eventData'' = JUndefined \<and>
   getField (filterHookData e RD_none) ''metadata'' = JUndefined \<and>
   (\<exists>r. vercel_filterStepData rt e RD_none = Inr r \<and>
        getField r ''input'' = JUndefined \<and> getField r ''output'' = JUndefined) \<and>
   map_of (filterRunData e RD_all) ''input'' = map_of e ''input'' \<and>
   map_of (filterRunData e RD_all) ''output'' = map_of e ''output'' \<and>
   map_of (filterStepData e RD_all) ''input'' = map_of e ''input'' \<and>
   map_of (filterStepData e RD_all) ''output'' = map_of e ''output'' \<and>
   map_of (filterEventData e RD_all) ''eventData'' = map_of e ''eventData'' \<and>
   map_of (filterHookData e RD_all) ''metadata'' = map_of e ''metadata'' \<and>
   (\<exists>r. vercel_filterStepData rt e RD_all = Inr r \<and>
        map_of r ''input'' = map_of e ''input'' \<and> map_of r ''output'' = map_of e ''output'')"
proof -
  have shared: "getField (filterRunData e RD_none) ''input'' = JUndefined"
    "getField (filterRunData e RD_none) ''output'' = JUndefined"
    "getField (filterStepData e RD_none) ''input'' = JUndefined"
    "getField (filterStepData e RD_none) ''output'' = JUndefined"
    "getField (filterEventData e RD_none) ''eventData'' = JUndefined"
    "getField (filterHookData e RD_none) ''metadata'' = JUndefined"
    by (simp_all add: filterRunData_def filterStepData_def filterEventData_def
        filterHookData_def getField_update getField_delete)
  have all: "filterRunData e RD_all = e" "filterStepData e RD_all = e"
    "filterEventData e RD_all = e" "filterHookData e RD_all = e"
    by (simp_all add: filterRunData_def filterStepData_def filterEventData_def filterHookData_def)
  obtain r where r: "vercel_filterStepData rt e RD_none = Inr r"
    using vercel_returns by blast
  then obtain d where "r = AList.update ''output'' JUndefined (AList.update ''input'' JUndefined d)"
    using vercel_none_result by blast
  then have rn: "getField r ''input'' = JUndefined \<and> getField r ''output'' = JUndefined"
    by (simp add: getField_update)
  obtain a where a: "vercel_filterStepData rt e RD_all = Inr a"
    using vercel_returns by blast
  then have "deserializeStep rt e = Inr a"
    by (simp add: vercel_filterStepData_def)
  then have ra: "map_of a ''input'' = map_of e ''input'' \<and> map_of a ''output'' = map_of e ''output''"
    by (simp add: deserializeStep_other)
  show ?thesis
    using shared all r rn a ra by simp
qed

section \<open>Paths and directory entries\<close>

lemma segments_nonempty: "segments p \<noteq> []"
  by (induction p) (auto split: list.splits)

lemma segments_append_slash: "segments (a @ CHR ''/'' # b) = segments a @ segments b"
proof (induction a)
  case Nil
  then show ?case by simp
next
  case (Cons c a)
  then show ?case
    using segments_nonempty [of a] by (cases "segments a") auto
qed

lemma segments_plain: "CHR ''/'' \<notin> set n \<Longrightarrow> segments n = [n]"
  by (induction n) auto

lemma normalizeSegments_append:
  "normalizeSegments allow res (xs @ ys) = normalizeSegments allow (normalizeSegments allow res xs) ys"
  by (induction xs arbitrary: res) simp_all

lemma joinWithSlash_snoc:
  "xs \<noteq> [] \<Longrightarrow> joinWithSlash (xs @ [n]) = joinWithSlash xs @ ''/'' @ n"
  by (induction xs rule: joinWithSlash.induct) simp_all

lemma joinWithSlash_nonempty:
  "s \<in> set xs \<Longrightarrow> s \<noteq> [] \<Longrightarrow> joinWithSlash xs \<noteq> []"
  by (induction xs rule: joinWithSlash.induct) auto

lemma normalize_entry:
  assumes plain: "CHR ''/'' \<notin> set n" and ne: "n \<noteq> []" and d1: "n \<noteq> ''.''" and d2: "n \<noteq> ''..''"
    and dir: "segments d = pre @ [''steps'']" and dne: "d \<noteq> []"
  shows "path_normalize (d @ ''/'' @ n) = path_normalize d @ ''/'' @ n"
proof -
  let ?above = "hd d \<noteq> CHR ''/''"
  let ?R = "normalizeSegments ?above [] (segments d)"
  have R: "?R = ''steps'' # normalizeSegments ?above [] pre"
    by (simp add: dir normalizeSegments_append)
  have seg: "segments (d @ CHR ''/'' # n) = segments d @ [n]"
    using plain by (simp add: segments_append_slash segments_plain)
  have N: "normalizeSegments ?above [] (segments (d @ CHR ''/'' # n)) = n # ?R"
    using ne d1 d2 by (simp add: seg normalizeSegments_append)
  have revne: "rev ?R \<noteq> []"
    using R by simp
  have pd: "normalizeString d ?above = joinWithSlash (rev ?R)"
    by (simp add: normalizeString_def)
  have pdne: "joinWithSlash (rev ?R) \<noteq> []"
    by (rule joinWithSlash_nonempty [of "''steps''"]) (simp_all add: R)
  have pn: "normalizeString (d @ CHR ''/'' # n) ?above = joinWithSlash (rev ?R) @ ''/'' @ n"
    using joinWithSlash_snoc [OF revne, of n] by (simp add: normalizeString_def N)
  have lastd: "last d \<noteq> CHR ''/''"
  proof
    assume "last d = CHR ''/''"
    with dne have "d = butlast d @ CHR ''/'' # []"
      by (metis append_butlast_last_id)
    then have "segments d = segments (butlast d) @ [[]]"
      using segments_append_slash [of "butlast d" "[]"] by simp
    with dir show False by simp
  qed
  have hdn: "hd (d @ CHR ''/'' # n) = hd d"
    using dne by simp
  have lastn: "last (d @ CHR ''/'' # n) \<noteq> CHR ''/''"
    using ne plain by (simp add: last_append) (metis last_in_set)
  show ?thesis
    using dne pd pdne pn lastd hdn lastn
    by (simp add: path_normalize_def Let_def)
qed

lemma path_join_entry:
  assumes "CHR ''/'' \<notin> set n" and "n \<noteq> []" and "n \<noteq> ''.''" and "n \<noteq> ''..''"
  shows "path_join [basedir, ''steps'', n] = path_join [basedir, ''steps''] @ ''/'' @ n"
proof (cases "basedir = []")
  case True
  have "segments ''steps'' = [] @ [''steps'']" by simp
  from normalize_entry [OF assms this] True assms(2) show ?thesis
    by (simp add: path_join_def)
next
  case False
  have "segments (basedir @ ''/'' @ ''steps'') = segments basedir @ [''steps'']"
    by (simp add: segments_append_slash)
  from normalize_entry [OF assms this] False assms(2) show ?thesis
    by (simp add: path_join_def)
qed

lemma fileIdIn_Some:
  assumes "fileIdIn directory filePath = Some fileId"
  shows "filePath = directory @ ''/'' @ fileId @ ''.json'' \<and> CHR ''/'' \<notin> set fileId"
proof -
  let ?name = "drop (length directory + 1) filePath"
  from assms have pre: "prefix (directory @ ''/'') filePath" and suf: "suffix ''.json'' ?name"
    and plain: "CHR ''/'' \<notin> set ?name" and fid: "fileId = take (length ?name - 5) ?name"
    by (auto simp: fileIdIn_def Let_def split: if_splits)
  from pre have fp: "filePath = (directory @ ''/'') @ ?name"
    by (auto simp: prefix_def)
  from suf obtain stem where stem: "?name = stem @ ''.json''"
    by (auto simp: suffix_def)
  have "take (length (stem @ ''.json'') - 5) (stem @ ''.json'') = stem"
    by simp
  with fid stem have "fileId = stem" by metis
  with fp stem plain show ?thesis by auto
qed

lemma listed_file_is_read:
  assumes "fileId \<in> set (listJSONFiles fs (path_join [basedir, ''steps'']))"
  shows "\<exists>step. readJSON fs (path_join [basedir, ''steps'', fileId @ ''.json'']) = Some step"
proof -
  from assms have "\<exists>filePath. filePath \<in> fst ` set fs \<and>
      fileIdIn (path_join [basedir, ''steps'']) filePath = Some fileId"
    by (force simp: listJSONFiles_def map_filter_def)
  then obtain filePath where inn: "filePath \<in> fst ` set fs"
    and fid: "fileIdIn (path_join [basedir, ''steps'']) filePath = Some fileId"
    by blast
  from fileIdIn_Some [OF fid] have fp: "filePath = path_join [basedir, ''steps''] @ ''/'' @ fileId @ ''.json''"
    and plain: "CHR ''/'' \<notin> set fileId"
    by simp_all
  have "path_join [basedir, ''steps'', fileId @ ''.json''] = filePath"
    using plain fp path_join_entry [of "fileId @ ''.json''" basedir] by auto
  with inn show ?thesis
    by (cases "map_of fs filePath") (auto simp: readJSON_def map_of_eq_None_iff)
qed

section \<open>Lookup of a step in the filesystem backend\<close>

lemma takeWhile_first_segment:
  assumes "CHR ''-'' \<notin> set r" and "prefix (r @ ''-'') f"
  shows "takeWhile (\<lambda>c. c \<noteq> CHR ''-'') f = r"
proof -
  from assms(2) obtain rest where f: "f = (r @ ''-'') @ rest"
    by (auto simp: prefix_def)
  have "takeWhile (\<lambda>c. c \<noteq> CHR ''-'') (r @ (CHR ''-'' # rest)) = r"
    using assms(1) by (subst takeWhile_append2) auto
  with f show ?thesis by simp
qed

lemma locateRunId_given:
  "runId \<noteq> [] \<Longrightarrow> locateRunId fs basedir (Some runId) stepId = Inr runId"
  by (simp add: locateRunId_def)

lemma locateRunId_empty:
  "locateRunId fs basedir (Some []) stepId = locateRunId fs basedir None stepId"
  by (simp add: locateRunId_def)

lemma locateRunId_reverse:
  assumes listed: "runId @ ''-'' @ stepId \<in> set (listJSONFiles fs (path_join [basedir, ''steps'']))"
    and nohyphen: "CHR ''-'' \<notin> set runId"
    and owner: "\<forall>f \<in> set (listJSONFiles fs (path_join [basedir, ''steps''])).
                  suffix (''-'' @ stepId) f \<longrightarrow> prefix (runId @ ''-'') f"
  shows "locateRunId fs basedir None stepId = Inr runId"
proof -
  let ?P = "\<lambda>fileId. suffix (''-'' @ stepId) fileId"
  let ?ids = "listJSONFiles fs (path_join [basedir, ''steps''])"
  have "?P (runId @ ''-'' @ stepId)"
    by (simp add: suffix_def)
  with listed have "find ?P ?ids \<noteq> None"
    by (auto simp: find_None_iff)
  then obtain f where f: "find ?P ?ids = Some f"
    by blast
  then have fin: "f \<in> set ?ids" and fsuf: "?P f"
    by (auto simp: find_Some_iff)
  with owner have "prefix (runId @ ''-'') f"
    by blast
  then have seg: "takeWhile (\<lambda>c. c \<noteq> CHR ''-'') f = runId" and "f \<noteq> []"
    using nohyphen by (auto simp: takeWhile_first_segment)
  with f show ?thesis
    by (simp add: locateRunId_def)
qed

lemma steps_get_absent_run_not_found:
  assumes "find (\<lambda>fileId. suffix (''-'' @ stepId) fileId)
             (listJSONFiles fs (path_join [basedir, ''steps''])) = None"
  shows "createStepsStorage_get fs basedir dflt None stepId params
           = Inl (Error (''Step '' @ stepId @ '' not found''))"
  using assms by (simp add: createStepsStorage_get_def locateRunId_def)

text \<open>Evaluation of the lookup on concrete file systems.\<close>

lemmas fs_eval = createStepsStorage_get_def locateRunId_def listJSONFiles_def readJSON_def
  fileIdIn_def path_join_def path_normalize_def normalizeString_def filterStepData_def
  suffix_to_prefix

text \<open>
  The path that \<open>steps.get\<close> reads is normalised: a run id with \<open>..\<close> segments names the
  file it resolves to.
\<close>

lemma normalised_path_is_read:
  "path_join [''/data'', ''steps'', (''x/../r1'' @ ''-'' @ ''s1'') @ ''.json'']
     = ''/data/steps/r1-s1.json'' \<and>
   createStepsStorage_get
      [(''/data/steps/r1-s1.json'', [(''runId'', JStr ''r1''), (''stepId'', JStr ''s1'')])]
      ''/data'' RD_all (Some ''x/../r1'') ''s1'' None
     = Inr [(''runId'', JStr ''r1''), (''stepId'', JStr ''s1'')]"
  by (simp add: fs_eval)

text \<open>
  C5, as the code has it. Let \<open>{runId}-{stepId}.json\<close> be an entry of the steps directory
  that holds a step, where \<open>runId\<close> contains no \<open>-\<close> and every entry of the directory whose
  name ends in \<open>-stepId\<close> is a file of that run (its name starts with \<open>runId-\<close>). Then
  \<open>steps.get\<close> without a run id finds the run by the suffix of the file name and returns
  what \<open>steps.get\<close> with the run id returns: the projection of the stored step.
\<close>

theorem reverse_lookup_same_record:
  assumes stored: "readJSON fs (path_join [basedir, ''steps'', (runId @ ''-'' @ stepId) @ ''.json''])
                     = Some step"
    and listed: "runId @ ''-'' @ stepId \<in> set (listJSONFiles fs (path_join [basedir, ''steps'']))"
    and nohyphen: "CHR ''-'' \<notin> set runId"
    and owner: "\<forall>f \<in> set (listJSONFiles fs (path_join [basedir, ''steps''])).
                  suffix (''-'' @ stepId) f \<longrightarrow> prefix (runId @ ''-'') f"
  shows "createStepsStorage_get fs basedir dflt None stepId params
           = createStepsStorage_get fs basedir dflt (Some runId) stepId params \<and>
         (\<exists>rd. createStepsStorage_get fs basedir dflt None stepId params
                  = Inr (filterStepData step rd))"
proof -
  have rev: "locateRunId fs basedir None stepId = Inr runId"
    using listed nohyphen owner by (rule locateRunId_reverse)
  have same: "locateRunId fs basedir (Some runId) stepId = Inr runId"
    using rev by (cases "runId = []") (simp_all add: locateRunId_given locateRunId_empty)
  show ?thesis
    using rev same stored by (auto simp: createStepsStorage_get_def Let_def)
qed

theorem reverse_lookup_same_record_witness:
  "readJSON [(''/data/steps/r1-s1.json'',
                [(''runId'', JStr ''r1''), (''stepId'', JStr ''s1''), (''input'', JBytes [7])]),
             (''/data/steps/r2-s2.json'', [(''runId'', JStr ''r2''), (''stepId'', JStr ''s2'')])]
      (path_join [''/data'', ''steps'', (''r1'' @ ''-'' @ ''s1'') @ ''.json''])
     = Some [(''runId'', JStr ''r1''), (''stepId'', JStr ''s1''), (''input'', JBytes [7])] \<and>
   listJSONFiles
      [(''/data/steps/r1-s1.json'',
          [(''runId'', JStr ''r1''), (''stepId'', JStr ''s1''), (''input'', JBytes [7])]),
       (''/data/steps/r2-s2.json'', [(''runId'', JStr ''r2''), (''stepId'', JStr ''s2'')])]
      (path_join [''/data'', ''steps'']) = [''r1-s1'', ''r2-s2''] \<and>
   CHR ''-'' \<notin> set ''r1'' \<and>
   suffix (''-'' @ ''s1'') ''r1-s1'' \<and> prefix (''r1'' @ ''-'') ''r1-s1'' \<and>
   \<not> suffix (''-'' @ ''s1'') ''r2-s2'' \<and>
   createStepsStorage_get
      [(''/data/steps/r1-s1.json'',
          [(''runId'', JStr ''r1''), (''stepId'', JStr ''s1''), (''input'', JBytes [7])]),
       (''/data/steps/r2-s2.json'', [(''runId'', JStr ''r2''), (''stepId'', JStr ''s2'')])]
      ''/data'' RD_all None ''s1'' None
     = createStepsStorage_get
      [(''/data/steps/r1-s1.json'',
          [(''runId'', JStr ''r1''), (''stepId'', JStr ''s1''), (''input'', JBytes [7])]),
       (''/data/steps/r2-s2.json'', [(''runId'', JStr ''r2''), (''stepId'', JStr ''s2'')])]
      ''/data'' RD_all (Some ''r1'') ''s1'' None \<and>
   createStepsStorage_get
      [(''/data/steps/r1-s1.json'',
          [(''runId'', JStr ''r1''), (''stepId'', JStr ''s1''), (''input'', JBytes [7])]),
       (''/data/steps/r2-s2.json'', [(''runId'', JStr ''r2''), (''stepId'', JStr ''s2'')])]
      ''/data'' RD_all None ''s1'' None
     = Inr [(''runId'', JStr ''r1''), (''stepId'', JStr ''s1''), (''input'', JBytes [7])]"
proof -
  let ?fs = "[(''/data/steps/r1-s1.json'',
                 [(''runId'', JStr ''r1''), (''stepId'', JStr ''s1''), (''input'', JBytes [7])]),
              (''/data/steps/r2-s2.json'', [(''runId'', JStr ''r2''), (''stepId'', JStr ''s2'')])]"
  have ids: "listJSONFiles ?fs (path_join [''/data'', ''steps'']) = [''r1-s1'', ''r2-s2'']"
    by (simp add: fs_eval)
  have h1: "readJSON ?fs (path_join [''/data'', ''steps'', (''r1'' @ ''-'' @ ''s1'') @ ''.json''])
      = Some [(''runId'', JStr ''r1''), (''stepId'', JStr ''s1''), (''input'', JBytes [7])]"
    by (simp add: fs_eval)
  have h2: "''r1'' @ ''-'' @ ''s1'' \<in> set (listJSONFiles ?fs (path_join [''/data'', ''steps'']))"
    by (simp add: ids)
  have h3: "CHR ''-'' \<notin> set ''r1''"
    by simp
  have h4: "\<forall>f \<in> set (listJSONFiles ?fs (path_join [''/data'', ''steps''])).
      suffix (''-'' @ ''s1'') f \<longrightarrow> prefix (''r1'' @ ''-'') f"
    by (simp add: ids suffix_to_prefix)
  have ev: "createStepsStorage_get ?fs ''/data'' RD_all None ''s1'' None
      = Inr [(''runId'', JStr ''r1''), (''stepId'', JStr ''s1''), (''input'', JBytes [7])]"
    by (simp add: fs_eval)
  show ?thesis
    using reverse_lookup_same_record [OF h1 h2 h3 h4, of RD_all None] h1 ids ev
    by (simp add: suffix_to_prefix)
qed

text \<open>
  Without these conditions the reverse lookup differs from the lookup by composite key. When
  two runs have a step of the same id, the first file listed wins. When the run id contains
  a \<open>-\<close>, the file is found by its suffix, but the run id rebuilt from it is cut at the first
  \<open>-\<close> and the read fails.
\<close>

theorem reverse_lookup_counterexample:
  "createStepsStorage_get
      [(''/data/steps/r1-s1.json'', [(''runId'', JStr ''r1''), (''stepId'', JStr ''s1'')]),
       (''/data/steps/r2-s1.json'', [(''runId'', JStr ''r2''), (''stepId'', JStr ''s1'')])]
      ''/data'' RD_all None ''s1'' None
     = Inr [(''runId'', JStr ''r1''), (''stepId'', JStr ''s1'')] \<and>
   createStepsStorage_get
      [(''/data/steps/r1-s1.json'', [(''runId'', JStr ''r1''), (''stepId'', JStr ''s1'')]),
       (''/data/steps/r2-s1.json'', [(''runId'', JStr ''r2''), (''stepId'', JStr ''s1'')])]
      ''/data'' RD_all (Some ''r2'') ''s1'' None
     = Inr [(''runId'', JStr ''r2''), (''stepId'', JStr ''s1'')] \<and>
   createStepsStorage_get
      [(''/data/steps/my-run-s1.json'', [(''runId'', JStr ''my-run''), (''stepId'', JStr ''s1'')])]
      ''/data'' RD_all None ''s1'' None
     = Inl (Error ''Step s1 in run my not found'') \<and>
   createStepsStorage_get
      [(''/data/steps/my-run-s1.json'', [(''runId'', JStr ''my-run''), (''stepId'', JStr ''s1'')])]
      ''/data'' RD_all (Some ''my-run'') ''s1'' None
     = Inr [(''runId'', JStr ''my-run''), (''stepId'', JStr ''s1'')]"
  by (simp add: fs_eval)

text \<open>
  C6, as the code has it. For every non-empty run id and every step id with no file at the
  path \<open>path.join(basedir, 'steps', '{runId}-{stepId}.json')\<close>, \<open>steps.get\<close> fails (it does
  not return) with the message \<open>Step {stepId} in run {runId} not found\<close>, which names both
  ids.
\<close>

theorem steps_get_not_found:
  assumes "runId \<noteq> []"
    and "readJSON fs (path_join [basedir, ''steps'', (runId @ ''-'' @ stepId) @ ''.json'']) = None"
  shows "createStepsStorage_get fs basedir dflt (Some runId) stepId params
           = Inl (Error (''Step '' @ stepId @ '' in run '' @ runId @ '' not found''))"
  using assms by (simp add: createStepsStorage_get_def locateRunId_given)

theorem steps_get_not_found_witness:
  "''r9'' \<noteq> [] \<and>
   path_join [''/data'', ''steps'', (''r9'' @ ''-'' @ ''s1'') @ ''.json''] = ''/data/steps/r9-s1.json'' \<and>
   readJSON [(''/data/steps/r1-s1.json'', [(''stepId'', JStr ''s1'')])]
      (path_join [''/data'', ''steps'', (''r9'' @ ''-'' @ ''s1'') @ ''.json'']) = None \<and>
   createStepsStorage_get [(''/data/steps/r1-s1.json'', [(''stepId'', JStr ''s1'')])]
      ''/data'' RD_all (Some ''r9'') ''s1'' None
     = Inl (Error ''Step s1 in run r9 not found'')"
proof -
  have h1: "''r9'' \<noteq> []" by simp
  have p: "path_join [''/data'', ''steps'', (''r9'' @ ''-'' @ ''s1'') @ ''.json'']
      = ''/data/steps/r9-s1.json''"
    by (simp add: fs_eval)
  have h2: "readJSON [(''/data/steps/r1-s1.json'', [(''stepId'', JStr ''s1'')])]
      (path_join [''/data'', ''steps'', (''r9'' @ ''-'' @ ''s1'') @ ''.json'']) = None"
    by (simp add: fs_eval)
  show ?thesis
    using steps_get_not_found [OF h1 h2, of RD_all None] h1 h2 p by simp
qed

text \<open>
  The empty run id is treated as an absent one (\<open>!runId\<close>): there is no file at the path
  built for the empty run id and \<open>s1\<close>, and the call returns the step \<open>s1\<close> of run \<open>r1\<close>.
\<close>

theorem empty_run_id_counterexample:
  "path_join [''/data'', ''steps'', ([] @ ''-'' @ ''s1'') @ ''.json''] = ''/data/steps/-s1.json'' \<and>
   readJSON [(''/data/steps/r1-s1.json'', [(''runId'', JStr ''r1''), (''stepId'', JStr ''s1'')])]
      (path_join [''/data'', ''steps'', ([] @ ''-'' @ ''s1'') @ ''.json'']) = None \<and>
   createStepsStorage_get
      [(''/data/steps/r1-s1.json'', [(''runId'', JStr ''r1''), (''stepId'', JStr ''s1'')])]
      ''/data'' RD_all (Some []) ''s1'' None
     = Inr [(''runId'', JStr ''r1''), (''stepId'', JStr ''s1'')]"
  by (simp add: fs_eval)

section \<open>The remote and the shared step projection\<close>


lemma sameProps_refl: "sameProps v v"
  by (cases v) (simp_all add: sameProps_def list_all_iff)








section \<open>Validation of serialized data\<close>

text \<open>
  C9. Validation against the combined \<open>SerializedDataSchema\<close> succeeds on every value and
  returns it: a \<open>Uint8Array\<close> satisfies \<open>BinarySerializedDataSchema\<close>, every value satisfies
  the legacy schema, and the union never yields a validation error.
\<close>

theorem combined_schema_accepts:
  "SerializedDataSchema v = Inr v \<and>
   BinarySerializedDataSchema (JBytes bs) = Inr (JBytes bs) \<and>
   LegacySerializedDataSchemaV1 v = Inr v \<and>
   (\<forall>e. SerializedDataSchema v \<noteq> Inl e)"
proof -
  have legacy: "LegacySerializedDataSchemaV1 v = Inr v"
    by (simp add: LegacySerializedDataSchemaV1_def z_any_def)
  have binary: "BinarySerializedDataSchema (JBytes bs) = Inr (JBytes bs)"
    by (simp add: BinarySerializedDataSchema_def z_instanceof_Uint8Array_def)
  have "BinarySerializedDataSchema v = Inr v \<or> (\<exists>e. BinarySerializedDataSchema v = Inl e)"
    by (cases v) (simp_all add: BinarySerializedDataSchema_def z_instanceof_Uint8Array_def)
  with legacy have "SerializedDataSchema v = Inr v"
    by (auto simp: SerializedDataSchema_def)
  with legacy binary show ?thesis by simp
qed

section \<open>Delegation in the remote storage\<close>

text \<open>
  C10. In the storage built by \<open>createStorage\<close>, \<open>events.list\<close> and
  \<open>events.listByCorrelationId\<close> are the same call \<open>getWorkflowRunEvents(params, config)\<close>, so
  they give the same result on every \<open>params\<close>.
\<close>

theorem events_list_delegation:
  "events_list (createStorage api config) params
     = events_listByCorrelationId (createStorage api config) params \<and>
   events_list (createStorage api config) params = getWorkflowRunEvents api params config \<and>
   events_listByCorrelationId (createStorage api config) params
     = getWorkflowRunEvents api params config"
  by (simp add: createStorage_def)

end
